theory Spec2Isabelle
  imports Main
begin

section \<open>Python values, exceptions and responses\<close>

text \<open>
  The values that travel in request bodies and responses are JSON values. Python reads
  them as \<^verbatim>\<open>None\<close>, \<^verbatim>\<open>bool\<close>, \<^verbatim>\<open>int\<close>, \<^verbatim>\<open>str\<close>, \<^verbatim>\<open>list\<close> and \<^verbatim>\<open>dict\<close>
  (floating point numbers are left out). An object lists the columns of a row first,
  then its relationships.
\<close>

datatype json =
    JNull
  | JBool bool
  | JInt int
  | JStr string
  | JArr "json list"
  | JObj "(string \<times> json) list"

text \<open>Python truthiness, as \<^verbatim>\<open>not x\<close> and \<^verbatim>\<open>if x\<close> test it.\<close>

fun truthy :: "json \<Rightarrow> bool" where
  "truthy JNull = False"
| "truthy (JBool b) = b"
| "truthy (JInt i) = (i \<noteq> 0)"
| "truthy (JStr s) = (s \<noteq> [])"
| "truthy (JArr xs) = (xs \<noteq> [])"
| "truthy (JObj kvs) = (kvs \<noteq> [])"

text \<open>
  The exceptions the handlers can meet. \<open>DataError\<close> stands for the database errors
  that are neither an \<open>IntegrityError\<close> nor a \<open>ValueError\<close> (a value of the wrong
  type for its column).
\<close>

datatype pyerr =
    KeyError string
  | TypeError string
  | AttributeError string
  | ValueError string
  | IntegrityError string
  | DataError string

text \<open>\<^verbatim>\<open>str(e)\<close> of an exception: its message.\<close>

fun str_of :: "pyerr \<Rightarrow> string" where
  "str_of (KeyError m) = m"
| "str_of (TypeError m) = m"
| "str_of (AttributeError m) = m"
| "str_of (ValueError m) = m"
| "str_of (IntegrityError m) = m"
| "str_of (DataError m) = m"

text \<open>
  A handler either returns a body with a status code, or an exception leaves it
  uncaught (the framework then answers with an internal server error).
\<close>

datatype outcome = Response json nat | Raised pyerr

fun status_of :: "outcome \<Rightarrow> nat option" where
  "status_of (Response b c) = Some c"
| "status_of (Raised e) = None"

text \<open>The parsed request body, a dict: \<^verbatim>\<open>request.get_json()\<close>.\<close>

type_synonym body = "string \<Rightarrow> json option"

text \<open>\<^verbatim>\<open>d[k]\<close> raises \<open>KeyError\<close> on a missing key; \<^verbatim>\<open>d.get(k)\<close> gives \<^verbatim>\<open>None\<close>.\<close>

definition getitem :: "body \<Rightarrow> string \<Rightarrow> pyerr + json" where
  "getitem d k = (case d k of None \<Rightarrow> Inl (KeyError k) | Some v \<Rightarrow> Inr v)"

definition dict_get :: "body \<Rightarrow> string \<Rightarrow> json" where
  "dict_get d k = (case d k of None \<Rightarrow> JNull | Some v \<Rightarrow> v)"

section \<open>The session\<close>

text \<open>
  The signed cookie holds \<^verbatim>\<open>page_views\<close> and \<^verbatim>\<open>user_id\<close>. Only the handlers write
  it, and they write \<^verbatim>\<open>None\<close> or an integer. The handlers read a field with
  \<^verbatim>\<open>session.get\<close>, which gives \<^verbatim>\<open>None\<close> for a missing key as for a key set to
  \<^verbatim>\<open>None\<close>: both are \<open>None\<close> here.
\<close>

record session =
  page_views :: "int option"
  user_id :: "int option"

definition fresh_session :: session where
  "fresh_session = \<lparr>page_views = None, user_id = None\<rparr>"

section \<open>models.py\<close>

record user =
  User_id :: int
  username :: string
  password_hash_col :: string   \<comment> \<open>the column \<^verbatim>\<open>_password_hash\<close>\<close>
  avatar :: string

record article =
  Article_id :: int
  author :: "string option"
  title :: "string option"
  content :: "string option"
  preview_text :: "string option"
  preview_image :: "string option"
  minutes_to_read :: "int option"
  tag :: string
  date :: string
  Article_user_id :: "int option"

definition DEFAULT_PREVIEW_IMAGE :: string where
  "DEFAULT_PREVIEW_IMAGE =
     ''https://res.cloudinary.com/df3n8xhsq/image/upload/v1744458196/341-800x450_zeafvw.jpg''"

definition DEFAULT_AVATAR :: string where
  "DEFAULT_AVATAR =
     ''https://res.cloudinary.com/df3n8xhsq/image/upload/w_1000,c_fill,ar_1:1,g_auto,r_max,bo_5px_solid_red,b_rgb:262c35/v1744403231/bear_hh1n40.png''"

definition tag_enum :: "string list" where
  "tag_enum = [''Product'', ''Engineering'', ''Design'']"

text \<open>
  The hybrid property \<^verbatim>\<open>password_hash\<close>: its getter raises, whatever the user.
\<close>

definition password_hash :: "user \<Rightarrow> pyerr + string" where
  "password_hash u = Inl (AttributeError ''Password hash cannot be viewed'')"

text \<open>
  The password hasher (bcrypt) is a parameter: \<open>generate_password_hash\<close> may raise
  (\<open>ValueError\<close> for a password it refuses), \<open>check_password_hash\<close> takes the stored
  hash and the candidate password.
\<close>

record hasher =
  generate_password_hash :: "string \<Rightarrow> pyerr + string"
  check_password_hash :: "string \<Rightarrow> string \<Rightarrow> pyerr + bool"

text \<open>
  The setter of \<^verbatim>\<open>password_hash\<close> and \<^verbatim>\<open>authenticate\<close>. The hasher works on
  strings; it raises \<open>TypeError\<close> on any other value.
\<close>

definition password_hash_setter :: "hasher \<Rightarrow> json \<Rightarrow> pyerr + string" where
  "password_hash_setter h password =
     (case password of
        JStr p \<Rightarrow> generate_password_hash h p
      | _ \<Rightarrow> Inl (TypeError ''password must be a string''))"

definition authenticate :: "hasher \<Rightarrow> user \<Rightarrow> json \<Rightarrow> pyerr + bool" where
  "authenticate h u password =
     (case password of
        JStr p \<Rightarrow> check_password_hash h (password_hash_col u) p
      | _ \<Rightarrow> Inl (TypeError ''password must be a string''))"

section \<open>The store and the unit of work\<close>

text \<open>
  The store is the database behind \<^verbatim>\<open>SQLALCHEMY_DATABASE_URI\<close>: what one request
  leaves to the next. \<open>users\<close> and \<open>articles\<close> are the committed rows and \<open>now\<close> is
  its clock, which fills \<^verbatim>\<open>date\<close>. What the database makes of a value that a request
  hands to a column is its own affair (it may store a number as text, or refuse an integer
  that is out of range), so it is part of the store: \<open>string_value\<close> for a string
  column, \<open>integer_value\<close> for an integer column, \<open>enum_value\<close> for a tag outside the
  enumeration, and \<open>foreign_keys\<close> tells whether it enforces foreign keys.
\<close>

record store =
  users :: "user list"
  articles :: "article list"
  now :: string
  string_value :: "json \<Rightarrow> pyerr + string"
  integer_value :: "json \<Rightarrow> pyerr + int"
  enum_value :: "json \<Rightarrow> pyerr + string"
  foreign_keys :: bool

text \<open>
  \<^verbatim>\<open>db.session\<close> is the unit of work of one request: \<open>pending\<close> holds the objects that
  \<^verbatim>\<open>add\<close> has registered and no commit has written yet, and \<open>inactive\<close> tells that a
  flush has failed and no rollback has been called since. It ends with the request.
\<close>

datatype pending_object =
    NewUser string string                \<comment> \<open>\<^verbatim>\<open>username\<close>, \<^verbatim>\<open>_password_hash\<close>\<close>
  | NewArticle "(string \<times> json) list"    \<comment> \<open>the keyword arguments of \<^verbatim>\<open>Article(...)\<close>\<close>

datatype row = UserRow user | ArticleRow article

record unit_of_work =
  pending :: "pending_object list"
  inactive :: bool

definition new_unit_of_work :: unit_of_work where
  "new_unit_of_work = \<lparr>pending = [], inactive = False\<rparr>"

subsection \<open>Queries\<close>

definition User_query_filter_by_username :: "store \<Rightarrow> string \<Rightarrow> user option" where
  "User_query_filter_by_username st name = find (\<lambda>u. username u = name) (users st)"

definition User_query_get :: "store \<Rightarrow> int \<Rightarrow> user option" where
  "User_query_get st i = find (\<lambda>u. User_id u = i) (users st)"

text \<open>\<^verbatim>\<open>User.query.filter(User.id == x).first()\<close>: no row has a null id.\<close>

definition User_query_filter_id :: "store \<Rightarrow> int option \<Rightarrow> user option" where
  "User_query_filter_id st x =
     (case x of None \<Rightarrow> None | Some i \<Rightarrow> find (\<lambda>u. User_id u = i) (users st))"

definition Article_query_filter_id :: "store \<Rightarrow> int \<Rightarrow> article option" where
  "Article_query_filter_id st i = find (\<lambda>a. Article_id a = i) (articles st)"

definition Article_query_filter_by_user_id :: "store \<Rightarrow> int \<Rightarrow> article list" where
  "Article_query_filter_by_user_id st i =
     filter (\<lambda>a. Article_user_id a = Some i) (articles st)"

subsection \<open>Serialization\<close>

text \<open>
  \<^verbatim>\<open>to_dict\<close> comes from \<^verbatim>\<open>SerializerMixin\<close> (sqlalchemy-serializer). With no \<^verbatim>\<open>serialize_only\<close> it takes every
  mapped attribute of the model, the columns and the relationships, but for those that
  \<^verbatim>\<open>serialize_rules\<close> excludes. models.py excludes \<^verbatim>\<open>articles.user\<close> from a user and
  \<^verbatim>\<open>user.articles\<close> from an article, and nothing else.
\<close>

definition opt_str :: "string option \<Rightarrow> json" where
  "opt_str x = (case x of None \<Rightarrow> JNull | Some s \<Rightarrow> JStr s)"

definition opt_int :: "int option \<Rightarrow> json" where
  "opt_int x = (case x of None \<Rightarrow> JNull | Some i \<Rightarrow> JInt i)"

definition article_columns :: "article \<Rightarrow> (string \<times> json) list" where
  "article_columns a =
     [(''author'', opt_str (author a)),
      (''content'', opt_str (content a)),
      (''date'', JStr (date a)),
      (''id'', JInt (Article_id a)),
      (''minutes_to_read'', opt_int (minutes_to_read a)),
      (''preview_image'', opt_str (preview_image a)),
      (''preview_text'', opt_str (preview_text a)),
      (''tag'', JStr (tag a)),
      (''title'', opt_str (title a)),
      (''user_id'', opt_int (Article_user_id a))]"

definition user_columns :: "user \<Rightarrow> (string \<times> json) list" where
  "user_columns u =
     [(''_password_hash'', JStr (password_hash_col u)),
      (''avatar'', JStr (avatar u)),
      (''id'', JInt (User_id u)),
      (''username'', JStr (username u))]"

definition User_to_dict :: "store \<Rightarrow> user \<Rightarrow> json" where
  "User_to_dict st u =
     JObj (user_columns u @
           [(''articles'',
             JArr (map (\<lambda>a. JObj (article_columns a))
                     (Article_query_filter_by_user_id st (User_id u))))])"

definition Article_to_dict :: "store \<Rightarrow> article \<Rightarrow> json" where
  "Article_to_dict st a =
     JObj (article_columns a @
           [(''user'',
             (case User_query_filter_id st (Article_user_id a) of
                None \<Rightarrow> JNull
              | Some u \<Rightarrow> JObj (user_columns u)))])"

text \<open>
  \<^verbatim>\<open>article.to_dict()\<close> where \<^verbatim>\<open>article\<close> is what \<^verbatim>\<open>first()\<close> returned: \<^verbatim>\<open>None\<close>
  has no such attribute.
\<close>

definition to_dict_of_first :: "store \<Rightarrow> article option \<Rightarrow> pyerr + json" where
  "to_dict_of_first st x =
     (case x of
        None \<Rightarrow> Inl (AttributeError ''NoneType object has no attribute to_dict'')
      | Some a \<Rightarrow> Inr (Article_to_dict st a))"

subsection \<open>add, commit, rollback\<close>

text \<open>Sequencing of steps that may raise.\<close>

definition try_bind :: "pyerr + 'a \<Rightarrow> ('a \<Rightarrow> pyerr + 'b) \<Rightarrow> pyerr + 'b" where
  "try_bind x f = (case x of Inl e \<Rightarrow> Inl e | Inr v \<Rightarrow> f v)"

text \<open>An integer primary key: the store gives a new row the next free number.\<close>

definition next_id :: "int list \<Rightarrow> int" where
  "next_id ids = fold max ids 0 + 1"

text \<open>
  The value a column receives from a keyword argument of the constructor. An argument
  that was not given leaves the column to its default (or null), and \<^verbatim>\<open>None\<close> is null.
  Any other value is what the store makes of it, or the exception the store raises.
\<close>

definition string_column :: "store \<Rightarrow> json option \<Rightarrow> pyerr + string option" where
  "string_column st x =
     (case x of
        None \<Rightarrow> Inr None
      | Some JNull \<Rightarrow> Inr None
      | Some v \<Rightarrow> (case string_value st v of Inl e \<Rightarrow> Inl e | Inr s \<Rightarrow> Inr (Some s)))"

definition integer_column :: "store \<Rightarrow> json option \<Rightarrow> pyerr + int option" where
  "integer_column st x =
     (case x of
        None \<Rightarrow> Inr None
      | Some JNull \<Rightarrow> Inr None
      | Some v \<Rightarrow> (case integer_value st v of Inl e \<Rightarrow> Inl e | Inr i \<Rightarrow> Inr (Some i)))"

text \<open>\<^verbatim>\<open>preview_image\<close>: a string column with a default.\<close>

definition preview_image_column :: "store \<Rightarrow> json option \<Rightarrow> pyerr + string option" where
  "preview_image_column st x =
     (case x of
        None \<Rightarrow> Inr (Some DEFAULT_PREVIEW_IMAGE)
      | Some v \<Rightarrow> string_column st (Some v))"

text \<open>
  \<^verbatim>\<open>tag\<close>: an enumeration, not nullable, with the default \<^verbatim>\<open>Engineering\<close>. A member
  of the enumeration is stored as it is.
\<close>

definition tag_column :: "store \<Rightarrow> json option \<Rightarrow> pyerr + string" where
  "tag_column st x =
     (case x of
        None \<Rightarrow> Inr ''Engineering''
      | Some JNull \<Rightarrow> Inl (IntegrityError ''NOT NULL constraint failed: articles.tag'')
      | Some (JStr t) \<Rightarrow> (if t \<in> set tag_enum then Inr t else enum_value st (JStr t))
      | Some v \<Rightarrow> enum_value st v)"

text \<open>
  \<^verbatim>\<open>user_id\<close>: an integer column and a foreign key to \<^verbatim>\<open>users.id\<close>, checked by
  the stores that enforce foreign keys.
\<close>

definition user_id_column :: "store \<Rightarrow> json option \<Rightarrow> pyerr + int option" where
  "user_id_column st x =
     (case integer_column st x of
        Inl e \<Rightarrow> Inl e
      | Inr None \<Rightarrow> Inr None
      | Inr (Some i) \<Rightarrow>
          (if foreign_keys st \<and> \<not> list_ex (\<lambda>u. User_id u = i) (users st)
           then Inl (IntegrityError ''FOREIGN KEY constraint failed'')
           else Inr (Some i)))"

text \<open>Writing one user: \<^verbatim>\<open>username\<close> is unique, \<^verbatim>\<open>avatar\<close> takes its default.\<close>

definition new_user_row :: "store \<Rightarrow> string \<Rightarrow> string \<Rightarrow> user" where
  "new_user_row st name h =
     \<lparr>User_id = next_id (map User_id (users st)), username = name,
      password_hash_col = h, avatar = DEFAULT_AVATAR\<rparr>"

definition flush_user :: "store \<Rightarrow> string \<Rightarrow> string \<Rightarrow> pyerr + (user \<times> store)" where
  "flush_user st name h =
     (if list_ex (\<lambda>u. username u = name) (users st)
      then Inl (IntegrityError ''UNIQUE constraint failed: users.username'')
      else
        (let u = new_user_row st name h
         in Inr (u, st\<lparr>users := users st @ [u]\<rparr>)))"

definition flush_article :: "store \<Rightarrow> (string \<times> json) list \<Rightarrow> pyerr + (article \<times> store)" where
  "flush_article st kw =
     try_bind (string_column st (map_of kw ''author'')) (\<lambda>c_author.
     try_bind (string_column st (map_of kw ''title'')) (\<lambda>c_title.
     try_bind (string_column st (map_of kw ''content'')) (\<lambda>c_content.
     try_bind (string_column st (map_of kw ''preview_text'')) (\<lambda>c_preview_text.
     try_bind (preview_image_column st (map_of kw ''preview_image'')) (\<lambda>c_preview_image.
     try_bind (integer_column st (map_of kw ''minutes_to_read'')) (\<lambda>c_minutes.
     try_bind (tag_column st (map_of kw ''tag'')) (\<lambda>c_tag.
     try_bind (user_id_column st (map_of kw ''user_id'')) (\<lambda>c_user_id.
       (let a = \<lparr>Article_id = next_id (map Article_id (articles st)),
                  author = c_author, title = c_title, content = c_content,
                  preview_text = c_preview_text, preview_image = c_preview_image,
                  minutes_to_read = c_minutes, tag = c_tag, date = now st,
                  Article_user_id = c_user_id\<rparr>
        in Inr (a, st\<lparr>articles := articles st @ [a]\<rparr>))))))))))"

text \<open>
  Writing the pending objects in the order they were added. The first failure stops
  the flush, and nothing of it is kept.
\<close>

fun flush :: "pending_object list \<Rightarrow> store \<Rightarrow> pyerr + (row list \<times> store)" where
  "flush [] st = Inr ([], st)"
| "flush (NewUser name h # ps) st =
     try_bind (flush_user st name h) (\<lambda>(u, st').
     try_bind (flush ps st') (\<lambda>(rs, st''). Inr (UserRow u # rs, st'')))"
| "flush (NewArticle kw # ps) st =
     try_bind (flush_article st kw) (\<lambda>(a, st').
     try_bind (flush ps st') (\<lambda>(rs, st''). Inr (ArticleRow a # rs, st'')))"

definition db_session_add :: "unit_of_work \<Rightarrow> pending_object \<Rightarrow> unit_of_work" where
  "db_session_add uow obj = uow\<lparr>pending := pending uow @ [obj]\<rparr>"

text \<open>
  \<^verbatim>\<open>db.session.commit()\<close> gives the rows written, in order. When the flush raises, the
  store is as before, the objects are expunged from the session, and the session stays
  inactive until \<^verbatim>\<open>rollback\<close> is called.
\<close>

definition db_session_commit ::
    "store \<Rightarrow> unit_of_work \<Rightarrow> (pyerr + row list) \<times> store \<times> unit_of_work" where
  "db_session_commit st uow =
     (case flush (pending uow) st of
        Inl e \<Rightarrow> (Inl e, st, \<lparr>pending = [], inactive = True\<rparr>)
      | Inr (rs, st') \<Rightarrow> (Inr rs, st', \<lparr>pending = [], inactive = False\<rparr>))"

definition db_session_rollback :: "unit_of_work \<Rightarrow> unit_of_work" where
  "db_session_rollback uow = uow\<lparr>pending := [], inactive := False\<rparr>"

section \<open>app.py\<close>

text \<open>
  The handlers, as functions of the session, the store and the request. The rate limiter
  stands in front of them and answers by itself when a quota is exceeded: what follows is
  what a handler does with a request that reaches it. \<^verbatim>\<open>UploadImage\<close> only forwards a
  file to the image host and is left out.
\<close>

definition ClearSession_delete :: "session \<Rightarrow> outcome \<times> session" where
  "ClearSession_delete sess =
     (Response (JObj []) 204, sess\<lparr>page_views := None, user_id := None\<rparr>)"

definition IndexArticle_get :: "store \<Rightarrow> outcome" where
  "IndexArticle_get st = Response (JArr (map (Article_to_dict st) (articles st))) 200"

definition ShowArticle_get :: "session \<Rightarrow> store \<Rightarrow> int \<Rightarrow> outcome \<times> session" where
  "ShowArticle_get sess st i =
     (let views = (case page_views sess of
                     None \<Rightarrow> 0
                   | Some v \<Rightarrow> if v = 0 then 0 else v);
          sess' = sess\<lparr>page_views := Some (views + 1)\<rparr>
      in if views + 1 \<le> 100
         then (case to_dict_of_first st (Article_query_filter_id st i) of
                 Inl e \<Rightarrow> (Raised e, sess')
               | Inr article_json \<Rightarrow> (Response article_json 200, sess'))
         else (Response (JObj [(''message'', JStr ''Maximum pageview limit reached'')]) 401,
               sess'))"

text \<open>\<^verbatim>\<open>not user_id\<close> holds when the field is missing, \<^verbatim>\<open>None\<close> or 0.\<close>

definition GetArticle_get :: "session \<Rightarrow> store \<Rightarrow> outcome" where
  "GetArticle_get sess st =
     (case user_id sess of
        None \<Rightarrow> Response (JObj [(''Error'', JStr ''Unauthorized'')]) 401
      | Some i \<Rightarrow>
          (if i = 0 then Response (JObj [(''Error'', JStr ''Unauthorized'')]) 401
           else Response (JArr (map (Article_to_dict st)
                                  (Article_query_filter_by_user_id st i))) 200))"

definition Logout_delete :: "session \<Rightarrow> outcome \<times> session" where
  "Logout_delete sess = (Response (JStr []) 204, sess\<lparr>user_id := None\<rparr>)"

definition CheckSession_get :: "session \<Rightarrow> store \<Rightarrow> outcome" where
  "CheckSession_get sess st =
     (case User_query_filter_id st (user_id sess) of
        Some u \<Rightarrow> Response (User_to_dict st u) 200
      | None \<Rightarrow> Response (JObj []) 401)"

subsection \<open>Login and SignUp\<close>

text \<open>
  Both handlers look the user up with the \<^verbatim>\<open>username\<close> of the body. The column is a
  string column: the store refuses to compare it with a value of another type.
\<close>

definition invalid_credentials :: outcome where
  "invalid_credentials = Response (JObj [(''Error'', JStr ''Invalid credentials'')]) 401"

definition Login_post :: "hasher \<Rightarrow> session \<Rightarrow> store \<Rightarrow> body \<Rightarrow> outcome \<times> session" where
  "Login_post h sess st data =
     (case getitem data ''username'' of
        Inl e \<Rightarrow> (Raised e, sess)
      | Inr username_v \<Rightarrow>
     (case getitem data ''password'' of
        Inl e \<Rightarrow> (Raised e, sess)
      | Inr password_v \<Rightarrow>
          if \<not> truthy username_v \<or> \<not> truthy password_v
          then (Response (JObj [(''error'', JStr ''Username and password are required'')]) 400,
                sess)
          else
            (case username_v of
               JStr name \<Rightarrow>
                 (case User_query_filter_by_username st name of
                    None \<Rightarrow> (invalid_credentials, sess)
                  | Some u \<Rightarrow>
                      (case authenticate h u password_v of
                         Inl e \<Rightarrow> (Raised e, sess)
                       | Inr True \<Rightarrow>
                           (Response (User_to_dict st u) 200,
                            sess\<lparr>user_id := Some (User_id u)\<rparr>)
                       | Inr False \<Rightarrow> (invalid_credentials, sess)))
             | _ \<Rightarrow> (Raised (DataError ''not a string''), sess))))"

text \<open>
  The \<^verbatim>\<open>try\<close> block of \<^verbatim>\<open>SignUp.post\<close> and its \<^verbatim>\<open>except ValueError\<close>, which returns
  without calling \<^verbatim>\<open>rollback\<close>; any other exception leaves the handler. Both give the
  unit of work as the handler leaves it, beside the response, the session and the store.
\<close>

definition SignUp_except ::
    "pyerr \<Rightarrow> session \<Rightarrow> store \<Rightarrow> unit_of_work \<Rightarrow> outcome \<times> session \<times> store \<times> unit_of_work" where
  "SignUp_except e sess st uow =
     (case e of
        ValueError m \<Rightarrow> (Response (JObj [(''error'', JStr m)]) 400, sess, st, uow)
      | _ \<Rightarrow> (Raised e, sess, st, uow))"

definition SignUp_try ::
    "hasher \<Rightarrow> session \<Rightarrow> store \<Rightarrow> string \<Rightarrow> json
       \<Rightarrow> outcome \<times> session \<times> store \<times> unit_of_work" where
  "SignUp_try h sess st name password_v =
     (case password_hash_setter h password_v of
        Inl e \<Rightarrow> SignUp_except e sess st new_unit_of_work
      | Inr hashed \<Rightarrow>
          (case db_session_commit st (db_session_add new_unit_of_work (NewUser name hashed)) of
             (Inl e, st', uow) \<Rightarrow> SignUp_except e sess st' uow
           | (Inr rows, st', uow) \<Rightarrow>
               (case rev rows of
                  UserRow u # _ \<Rightarrow>
                    (Response (User_to_dict st' u) 201,
                     sess\<lparr>user_id := Some (User_id u)\<rparr>, st', uow)
                | _ \<Rightarrow> (Raised (AttributeError ''id''), sess, st', uow))))"

text \<open>What the request leaves: the response, the session and the store.\<close>

definition end_of_request ::
    "outcome \<times> session \<times> store \<times> unit_of_work \<Rightarrow> outcome \<times> session \<times> store" where
  "end_of_request r = (case r of (out, sess, st, uow) \<Rightarrow> (out, sess, st))"

definition SignUp_post ::
    "hasher \<Rightarrow> session \<Rightarrow> store \<Rightarrow> body \<Rightarrow> outcome \<times> session \<times> store" where
  "SignUp_post h sess st data =
     (case getitem data ''username'' of
        Inl e \<Rightarrow> (Raised e, sess, st)
      | Inr username_v \<Rightarrow>
     (case getitem data ''password'' of
        Inl e \<Rightarrow> (Raised e, sess, st)
      | Inr password_v \<Rightarrow>
          if \<not> truthy username_v \<or> \<not> truthy password_v
          then (Response (JObj [(''Error'', JStr ''Username and password are required'')]) 400,
                sess, st)
          else
            (case username_v of
               JStr name \<Rightarrow>
                 (case User_query_filter_by_username st name of
                    Some u \<Rightarrow>
                      (Response (JObj [(''Error'', JStr ''Username already exists'')]) 409,
                       sess, st)
                  | None \<Rightarrow> end_of_request (SignUp_try h sess st name password_v))
             | _ \<Rightarrow> (Raised (DataError ''not a string''), sess, st))))"

subsection \<open>CreateArticle\<close>

definition required_fields :: "string list" where
  "required_fields = [''title'', ''content'', ''preview_text'', ''minutes_to_read'']"

definition allowed_tags :: "string list" where
  "allowed_tags = [''Product'', ''Engineering'', ''Design'']"

text \<open>
  \<^verbatim>\<open>except (IntegrityError, ValueError)\<close>: rollback, then the message with status 400;
  any other exception leaves the handler.
\<close>

definition CreateArticle_except ::
    "pyerr \<Rightarrow> session \<Rightarrow> store \<Rightarrow> unit_of_work \<Rightarrow> outcome \<times> session \<times> store \<times> unit_of_work" where
  "CreateArticle_except e sess st uow =
     (case e of
        IntegrityError m \<Rightarrow>
          (Response (JObj [(''Error'', JStr m)]) 400, sess, st, db_session_rollback uow)
      | ValueError m \<Rightarrow>
          (Response (JObj [(''Error'', JStr m)]) 400, sess, st, db_session_rollback uow)
      | _ \<Rightarrow> (Raised e, sess, st, uow))"

text \<open>The dict \<^verbatim>\<open>article_data\<close>, before the \<^verbatim>\<open>None\<close> values are dropped.\<close>

definition article_data :: "user \<Rightarrow> int \<Rightarrow> body \<Rightarrow> pyerr + (string \<times> json) list" where
  "article_data u uid data =
     try_bind (getitem data ''title'') (\<lambda>v_title.
     try_bind (getitem data ''content'') (\<lambda>v_content.
     try_bind (getitem data ''preview_text'') (\<lambda>v_preview_text.
     try_bind (getitem data ''minutes_to_read'') (\<lambda>v_minutes.
       Inr [(''author'', JStr (username u)),
            (''title'', v_title),
            (''content'', v_content),
            (''preview_text'', v_preview_text),
            (''minutes_to_read'', v_minutes),
            (''user_id'', JInt uid),
            (''tag'', dict_get data ''tag''),
            (''preview_image'', dict_get data ''preview_image'')]))))"

definition CreateArticle_try ::
    "session \<Rightarrow> store \<Rightarrow> user \<Rightarrow> int \<Rightarrow> body
       \<Rightarrow> outcome \<times> session \<times> store \<times> unit_of_work" where
  "CreateArticle_try sess st u uid data =
     (case article_data u uid data of
        Inl e \<Rightarrow> CreateArticle_except e sess st new_unit_of_work
      | Inr kw \<Rightarrow>
          (case db_session_commit st
                  (db_session_add new_unit_of_work
                     (NewArticle (filter (\<lambda>(k, v). v \<noteq> JNull) kw))) of
             (Inl e, st', uow) \<Rightarrow> CreateArticle_except e sess st' uow
           | (Inr rows, st', uow) \<Rightarrow>
               (case rev rows of
                  ArticleRow a # _ \<Rightarrow> (Response (Article_to_dict st' a) 201, sess, st', uow)
                | _ \<Rightarrow> (Raised (AttributeError ''to_dict''), sess, st', uow))))"

definition CreateArticle_post :: "session \<Rightarrow> store \<Rightarrow> body \<Rightarrow> outcome \<times> session \<times> store" where
  "CreateArticle_post sess st data =
     (case user_id sess of
        None \<Rightarrow> (Response (JObj [(''Error'', JStr ''Unauthorized. Please log in'')]) 401, sess, st)
      | Some uid \<Rightarrow>
          if uid = 0
          then (Response (JObj [(''Error'', JStr ''Unauthorized. Please log in'')]) 401, sess, st)
          else
            (case User_query_get st uid of
               None \<Rightarrow> (Response (JObj [(''Error'', JStr ''User not found'')]) 404, sess, st)
             | Some u \<Rightarrow>
                 if \<not> list_all (\<lambda>field. data field \<noteq> None) required_fields
                 then (Response (JObj [(''Error'',
                         JStr ''Missing required fields: ['title', 'content', 'preview_text', 'minutes_to_read']'')])
                         400, sess, st)
                 else if data ''tag'' \<noteq> None \<and> dict_get data ''tag'' \<notin> set (map JStr allowed_tags)
                 then (Response (JObj [(''error'',
                         JStr ''Invalid tag. Allowed values: ['Product', 'Engineering', 'Design']'')])
                         400, sess, st)
                 else end_of_request (CreateArticle_try sess st u uid data)))"

section \<open>Concrete inputs\<close>

text \<open>
  A store and a hasher to run the handlers on concrete requests: the general theorems
  below hold for every store and every hasher. This store is given strings for its
  string columns and small integers for its integer columns, and answers any other value
  with an error.
\<close>

definition strings_only :: "json \<Rightarrow> pyerr + string" where
  "strings_only v = (case v of JStr s \<Rightarrow> Inr s | _ \<Rightarrow> Inl (DataError ''not a string''))"

definition small_integers_only :: "json \<Rightarrow> pyerr + int" where
  "small_integers_only v =
     (case v of
        JInt i \<Rightarrow>
          (if - 2147483648 \<le> i \<and> i \<le> 2147483647 then Inr i
           else Inl (DataError ''integer out of range''))
      | _ \<Rightarrow> Inl (DataError ''not an integer''))"

definition empty_store :: store where
  "empty_store =
     \<lparr>users = [], articles = [], now = ''2025-01-01 00:00:00'',
      string_value = strings_only, integer_value = small_integers_only,
      enum_value = strings_only, foreign_keys = False\<rparr>"

definition example_hasher :: hasher where
  "example_hasher =
     \<lparr>generate_password_hash = (\<lambda>p. Inr (''$2b$12$'' @ rev p)),
      check_password_hash = (\<lambda>hashed p. Inr (hashed = ''$2b$12$'' @ rev p))\<rparr>"

definition alice :: user where
  "alice = \<lparr>User_id = 1, username = ''alice'', password_hash_col = ''$2b$12$wp'',
             avatar = DEFAULT_AVATAR\<rparr>"

definition first_post :: article where
  "first_post =
     \<lparr>Article_id = 1, author = Some ''alice'', title = Some ''Hello'',
      content = Some ''First post'', preview_text = Some ''Hello'',
      preview_image = Some DEFAULT_PREVIEW_IMAGE, minutes_to_read = Some 3,
      tag = ''Engineering'', date = ''2025-01-01 00:00:00'', Article_user_id = Some 1\<rparr>"

definition example_store :: store where
  "example_store =
     \<lparr>users = [alice], articles = [first_post], now = ''2025-01-02 00:00:00'',
      string_value = strings_only, integer_value = small_integers_only,
      enum_value = strings_only, foreign_keys = False\<rparr>"

text \<open>
  The view counter as \<^verbatim>\<open>ShowArticle.get\<close> reads it before it adds one: 0 when the
  field is missing, \<^verbatim>\<open>None\<close> or 0.
\<close>

definition views_of :: "session \<Rightarrow> int" where
  "views_of sess = (case page_views sess of None \<Rightarrow> 0 | Some v \<Rightarrow> v)"

definition limit_reached :: outcome where
  "limit_reached = Response (JObj [(''message'', JStr ''Maximum pageview limit reached'')]) 401"

definition logged_in :: session where
  "logged_in = \<lparr>page_views = None, user_id = Some 1\<rparr>"

definition example_article_body :: body where
  "example_article_body =
     [''title'' \<mapsto> JStr ''Second'', ''content'' \<mapsto> JStr ''More text'',
      ''preview_text'' \<mapsto> JStr ''More'', ''minutes_to_read'' \<mapsto> JInt 2]"

text \<open>
  The store takes the values that a body gives for the columns of an article (the tag
  apart), the username of the author and the id of the owner: no column refuses its
  value.
\<close>

definition store_accepts :: "store \<Rightarrow> user \<Rightarrow> int \<Rightarrow> body \<Rightarrow> bool" where
  "store_accepts st u uid data =
     (\<not> isl (string_column st (Some (JStr (username u))))
      \<and> \<not> isl (string_column st (data ''title''))
      \<and> \<not> isl (string_column st (data ''content''))
      \<and> \<not> isl (string_column st (data ''preview_text''))
      \<and> \<not> isl (integer_column st (data ''minutes_to_read''))
      \<and> \<not> isl (string_column st (data ''preview_image''))
      \<and> \<not> isl (user_id_column st (Some (JInt uid))))"

text \<open>What the comprehension over \<^verbatim>\<open>article_data.items()\<close> keeps of a value.\<close>

definition kept :: "json \<Rightarrow> json option" where
  "kept v = (if v = JNull then None else Some v)"

section \<open>Queries on the committed rows\<close>

lemma find_Some_mem: "find P xs = Some x \<Longrightarrow> x \<in> set xs \<and> P x"
  by (induction xs) (auto split: if_splits)

lemma find_None_ball: "(find P xs = None) = (\<forall>x\<in>set xs. \<not> P x)"
  by (induction xs) auto

lemma User_query_filter_id_None:
  "(User_query_filter_id st x = None) = (\<not> (\<exists>u\<in>set (users st). x = Some (User_id u)))"
  by (cases x) (auto simp: User_query_filter_id_def find_None_ball)

lemma User_query_filter_id_Some:
  "User_query_filter_id st x = Some u \<Longrightarrow> u \<in> set (users st) \<and> x = Some (User_id u)"
  by (cases x) (auto simp: User_query_filter_id_def dest: find_Some_mem)

section \<open>Session re-verification\<close>

text \<open>
  Claim C8. \<^verbatim>\<open>GET /check_session\<close> answers 200 exactly when the \<^verbatim>\<open>user_id\<close> of the
  session is the id of a user in the store, and the body is then that user, serialized.
  In every other case (no \<^verbatim>\<open>user_id\<close>, a \<^verbatim>\<open>user_id\<close> that \<^verbatim>\<open>/clear\<close> or \<^verbatim>\<open>/logout\<close>
  has set to \<^verbatim>\<open>None\<close>, an id with no user) the answer is the empty body with 401.
\<close>

theorem C8_check_session:
  "(status_of (CheckSession_get sess st) = Some 200
      \<longleftrightarrow> (\<exists>u\<in>set (users st). user_id sess = Some (User_id u)))
   \<and> (\<forall>b. CheckSession_get sess st = Response b 200 \<longrightarrow>
          (\<exists>u\<in>set (users st). user_id sess = Some (User_id u) \<and> b = User_to_dict st u))
   \<and> (\<not> (\<exists>u\<in>set (users st). user_id sess = Some (User_id u)) \<longrightarrow>
          CheckSession_get sess st = Response (JObj []) 401)
   \<and> CheckSession_get (snd (ClearSession_delete sess)) st = Response (JObj []) 401
   \<and> CheckSession_get (snd (Logout_delete sess)) st = Response (JObj []) 401"
proof (cases "User_query_filter_id st (user_id sess)")
  case None
  then have no: "\<not> (\<exists>u\<in>set (users st). user_id sess = Some (User_id u))"
    by (simp add: User_query_filter_id_None)
  have r: "CheckSession_get sess st = Response (JObj []) 401"
    using None by (simp add: CheckSession_get_def)
  show ?thesis using no r
    by (simp add: CheckSession_get_def User_query_filter_id_def ClearSession_delete_def
        Logout_delete_def)
next
  case (Some u)
  then have mem: "u \<in> set (users st)" and eq: "user_id sess = Some (User_id u)"
    using User_query_filter_id_Some by blast+
  have r: "CheckSession_get sess st = Response (User_to_dict st u) 200"
    using Some by (simp add: CheckSession_get_def)
  have ex: "\<exists>u\<in>set (users st). user_id sess = Some (User_id u)"
    using mem eq by blast
  have body: "\<exists>v\<in>set (users st). user_id sess = Some (User_id v)
                \<and> User_to_dict st u = User_to_dict st v"
    using mem eq by blast
  show ?thesis using r ex body
    by (simp add: CheckSession_get_def User_query_filter_id_def ClearSession_delete_def
        Logout_delete_def)
qed

theorem C8_check_session_witness:
  "CheckSession_get \<lparr>page_views = None, user_id = Some 1\<rparr> (empty_store\<lparr>users := [alice]\<rparr>)
     = Response (User_to_dict (empty_store\<lparr>users := [alice]\<rparr>) alice) 200
   \<and> CheckSession_get \<lparr>page_views = None, user_id = Some 2\<rparr> (empty_store\<lparr>users := [alice]\<rparr>)
     = Response (JObj []) 401
   \<and> CheckSession_get (snd (ClearSession_delete \<lparr>page_views = None, user_id = Some 1\<rparr>))
        (empty_store\<lparr>users := [alice]\<rparr>) = Response (JObj []) 401"
  using C8_check_session [of "\<lparr>page_views = None, user_id = Some 1\<rparr>"
                             "empty_store\<lparr>users := [alice]\<rparr>"]
        C8_check_session [of "\<lparr>page_views = None, user_id = Some 2\<rparr>"
                             "empty_store\<lparr>users := [alice]\<rparr>"]
  by (simp add: alice_def empty_store_def CheckSession_get_def User_query_filter_id_def)

section \<open>Creating an article\<close>

text \<open>
  Claim C10. When the \<^verbatim>\<open>user_id\<close> of the session is set (and not 0) and no user has
  that id, \<^verbatim>\<open>POST /articles/create\<close> answers 404 with \<^verbatim>\<open>User not found\<close> and leaves
  the store as it was: no article is created. The same request with no \<^verbatim>\<open>user_id\<close> in
  the session is answered with 401.
\<close>

theorem C10_user_not_found:
  assumes "user_id sess = Some uid" and "uid \<noteq> 0" and "User_query_get st uid = None"
  shows "CreateArticle_post sess st data =
           (Response (JObj [(''Error'', JStr ''User not found'')]) 404, sess, st)
         \<and> status_of (fst (CreateArticle_post (sess\<lparr>user_id := None\<rparr>) st data)) = Some 401"
  using assms by (simp add: CreateArticle_post_def)

theorem C10_user_not_found_witness:
  "CreateArticle_post \<lparr>page_views = None, user_id = Some 7\<rparr> empty_store Map.empty =
     (Response (JObj [(''Error'', JStr ''User not found'')]) 404,
      \<lparr>page_views = None, user_id = Some 7\<rparr>, empty_store)
   \<and> status_of (fst (CreateArticle_post \<lparr>page_views = None, user_id = None\<rparr>
                        empty_store Map.empty)) = Some 401"
  using C10_user_not_found [of "\<lparr>page_views = None, user_id = Some 7\<rparr>" 7 empty_store Map.empty]
  by (simp add: User_query_get_def empty_store_def)

section \<open>The pageview gate\<close>

lemma ShowArticle_get_session:
  "snd (ShowArticle_get sess st i) = sess\<lparr>page_views := Some (views_of sess + 1)\<rparr>"
  by (simp add: ShowArticle_get_def views_of_def Let_def split: option.splits sum.splits)

lemma ShowArticle_get_refused:
  "100 < views_of sess + 1 \<Longrightarrow> fst (ShowArticle_get sess st i) = limit_reached"
  by (simp add: ShowArticle_get_def views_of_def limit_reached_def Let_def split: option.splits)

lemma ShowArticle_get_found:
  "views_of sess + 1 \<le> 100 \<Longrightarrow> Article_query_filter_id st i = Some a \<Longrightarrow>
   fst (ShowArticle_get sess st i) = Response (Article_to_dict st a) 200"
  by (simp add: ShowArticle_get_def views_of_def Let_def to_dict_of_first_def
      split: option.splits)

text \<open>The counter after a run of views, of any articles.\<close>

lemma views_of_fold:
  "views_of (fold (\<lambda>j s. snd (ShowArticle_get s st j)) ids sess)
     = views_of sess + int (length ids)"
proof (induction ids arbitrary: sess)
  case Nil
  show ?case by simp
next
  case (Cons j js)
  have "views_of (snd (ShowArticle_get sess st j)) = views_of sess + 1"
    by (simp add: ShowArticle_get_session views_of_def)
  then show ?case using Cons.IH [of "snd (ShowArticle_get sess st j)"] by simp
qed

text \<open>
  What the gate does. Every call of \<^verbatim>\<open>GET /articles/{id}\<close> sets the counter of the
  session to one more than it was (from 0 when it was missing or falsy), whatever the
  id. When the new counter is at most 100 and an article has the id, the answer is that
  article, serialized, with 200. When the new counter exceeds 100 the answer is 401 with
  \<^verbatim>\<open>Maximum pageview limit reached\<close>. So, from a session with no views, the call that
  follows 100 or more views (of any articles) is refused, and a call that follows fewer
  is answered. After \<^verbatim>\<open>DELETE /clear\<close> the next view of an existing article is
  answered.
\<close>

theorem pageview_gate:
  "snd (ShowArticle_get sess st i) = sess\<lparr>page_views := Some (views_of sess + 1)\<rparr>
   \<and> (views_of sess + 1 \<le> 100 \<longrightarrow>
        (\<forall>a. Article_query_filter_id st i = Some a \<longrightarrow>
             fst (ShowArticle_get sess st i) = Response (Article_to_dict st a) 200))
   \<and> (100 < views_of sess + 1 \<longrightarrow> fst (ShowArticle_get sess st i) = limit_reached)
   \<and> (views_of sess = 0 \<longrightarrow>
        (\<forall>ids. 100 \<le> length ids \<longrightarrow>
           fst (ShowArticle_get (fold (\<lambda>j s. snd (ShowArticle_get s st j)) ids sess) st i)
             = limit_reached)
        \<and> (\<forall>ids a. length ids < 100 \<longrightarrow> Article_query_filter_id st i = Some a \<longrightarrow>
           fst (ShowArticle_get (fold (\<lambda>j s. snd (ShowArticle_get s st j)) ids sess) st i)
             = Response (Article_to_dict st a) 200))
   \<and> (\<forall>a. Article_query_filter_id st i = Some a \<longrightarrow>
        fst (ShowArticle_get (snd (ClearSession_delete sess)) st i)
          = Response (Article_to_dict st a) 200)"
proof -
  have cleared: "views_of (snd (ClearSession_delete sess)) + 1 \<le> 100"
    by (simp add: ClearSession_delete_def views_of_def)
  have c1: "snd (ShowArticle_get sess st i) = sess\<lparr>page_views := Some (views_of sess + 1)\<rparr>"
    by (rule ShowArticle_get_session)
  have c2: "views_of sess + 1 \<le> 100 \<longrightarrow>
        (\<forall>a. Article_query_filter_id st i = Some a \<longrightarrow>
             fst (ShowArticle_get sess st i) = Response (Article_to_dict st a) 200)"
    using ShowArticle_get_found by blast
  have c3: "100 < views_of sess + 1 \<longrightarrow> fst (ShowArticle_get sess st i) = limit_reached"
    using ShowArticle_get_refused by blast
  have c4: "views_of sess = 0 \<longrightarrow>
        (\<forall>ids. 100 \<le> length ids \<longrightarrow>
           fst (ShowArticle_get (fold (\<lambda>j s. snd (ShowArticle_get s st j)) ids sess) st i)
             = limit_reached)
        \<and> (\<forall>ids a. length ids < 100 \<longrightarrow> Article_query_filter_id st i = Some a \<longrightarrow>
           fst (ShowArticle_get (fold (\<lambda>j s. snd (ShowArticle_get s st j)) ids sess) st i)
             = Response (Article_to_dict st a) 200)"
  proof (intro impI conjI allI)
    fix ids :: "int list"
    assume z: "views_of sess = 0" and n: "100 \<le> length ids"
    have "100 < views_of (fold (\<lambda>j s. snd (ShowArticle_get s st j)) ids sess) + 1"
      using z n by (simp add: views_of_fold)
    then show "fst (ShowArticle_get (fold (\<lambda>j s. snd (ShowArticle_get s st j)) ids sess) st i)
                 = limit_reached"
      by (rule ShowArticle_get_refused)
  next
    fix ids :: "int list" and a
    assume z: "views_of sess = 0" and n: "length ids < 100"
      and f: "Article_query_filter_id st i = Some a"
    have "views_of (fold (\<lambda>j s. snd (ShowArticle_get s st j)) ids sess) + 1 \<le> 100"
      using z n by (simp add: views_of_fold)
    then show "fst (ShowArticle_get (fold (\<lambda>j s. snd (ShowArticle_get s st j)) ids sess) st i)
                 = Response (Article_to_dict st a) 200"
      using f by (rule ShowArticle_get_found)
  qed
  have c5: "\<forall>a. Article_query_filter_id st i = Some a \<longrightarrow>
        fst (ShowArticle_get (snd (ClearSession_delete sess)) st i)
          = Response (Article_to_dict st a) 200"
    using cleared ShowArticle_get_found by blast
  from c1 c2 c3 c4 c5 show ?thesis by blast
qed

theorem pageview_gate_example:
  "fst (ShowArticle_get fresh_session example_store 1)
     = Response (Article_to_dict example_store first_post) 200
   \<and> fst (ShowArticle_get \<lparr>page_views = Some 100, user_id = None\<rparr> example_store 1)
     = limit_reached
   \<and> fst (ShowArticle_get
            (fold (\<lambda>j s. snd (ShowArticle_get s example_store j)) (replicate 100 1)
               fresh_session) example_store 1)
     = limit_reached
   \<and> fst (ShowArticle_get
            (fold (\<lambda>j s. snd (ShowArticle_get s example_store j)) [1, 2, 1] fresh_session)
            example_store 1)
     = Response (Article_to_dict example_store first_post) 200
   \<and> fst (ShowArticle_get
            (snd (ClearSession_delete \<lparr>page_views = Some 100, user_id = None\<rparr>))
            example_store 1)
     = Response (Article_to_dict example_store first_post) 200"
proof -
  have found: "Article_query_filter_id example_store 1 = Some first_post"
    by (simp add: Article_query_filter_id_def example_store_def first_post_def)
  have v0: "views_of fresh_session = 0"
    by (simp add: views_of_def fresh_session_def)
  have v100: "views_of \<lparr>page_views = Some 100, user_id = None\<rparr> = 100"
    by (simp add: views_of_def)
  note fresh = pageview_gate [of fresh_session example_store 1]
  note full = pageview_gate [of "\<lparr>page_views = Some 100, user_id = None\<rparr>" example_store 1]
  have w1: "fst (ShowArticle_get fresh_session example_store 1)
              = Response (Article_to_dict example_store first_post) 200"
    using fresh found v0 by simp
  have w2: "fst (ShowArticle_get \<lparr>page_views = Some 100, user_id = None\<rparr> example_store 1)
              = limit_reached"
    using full v100 by simp
  have w3: "fst (ShowArticle_get
            (fold (\<lambda>j s. snd (ShowArticle_get s example_store j)) (replicate 100 1)
               fresh_session) example_store 1) = limit_reached"
    using fresh v0 by (metis length_replicate order_refl)
  have w4: "fst (ShowArticle_get
            (fold (\<lambda>j s. snd (ShowArticle_get s example_store j)) [1, 2, 1] fresh_session)
            example_store 1) = Response (Article_to_dict example_store first_post) 200"
  proof -
    have "length [1, 2, 1 :: int] < 100" by simp
    then show ?thesis using fresh found v0 by blast
  qed
  have w5: "fst (ShowArticle_get
            (snd (ClearSession_delete \<lparr>page_views = Some 100, user_id = None\<rparr>))
            example_store 1) = Response (Article_to_dict example_store first_post) 200"
    using full found by blast
  from w1 w2 w3 w4 w5 show ?thesis by blast
qed

text \<open>
  Claim C1. The claim says that every view whose counter is at most 100 returns the
  result of the lookup with status 200. The gate works as \<open>pageview_gate\<close> says, but
  in the open branch the handler calls \<^verbatim>\<open>to_dict\<close> on what \<^verbatim>\<open>first()\<close> returned, with
  no test for \<^verbatim>\<open>None\<close>: the first view of a fresh session, of an id that no article
  has, counts as view 1 and ends in an uncaught \<open>AttributeError\<close>, with no status 200.
\<close>

theorem C1_view_of_missing_article:
  "views_of fresh_session + 1 \<le> 100
   \<and> Article_query_filter_id empty_store 1 = None
   \<and> ShowArticle_get fresh_session empty_store 1 =
       (Raised (AttributeError ''NoneType object has no attribute to_dict''),
        \<lparr>page_views = Some 1, user_id = None\<rparr>)
   \<and> status_of (fst (ShowArticle_get fresh_session empty_store 1)) \<noteq> Some 200"
  by (simp add: views_of_def fresh_session_def empty_store_def ShowArticle_get_def
      Article_query_filter_id_def to_dict_of_first_def)

text \<open>
  Claim C3. The claim says that a view of an id with no article answers 200 with a null
  body. The handler calls \<^verbatim>\<open>to_dict\<close> on the \<^verbatim>\<open>None\<close> that the query returned: with
  the gate open, the request ends in an uncaught \<open>AttributeError\<close>, not in a response.
\<close>

theorem C3_missing_article_raises:
  "Article_query_filter_id example_store 999 = None
   \<and> ShowArticle_get fresh_session example_store 999 =
       (Raised (AttributeError ''NoneType object has no attribute to_dict''),
        \<lparr>page_views = Some 1, user_id = None\<rparr>)"
  by (simp add: ShowArticle_get_def Article_query_filter_id_def to_dict_of_first_def
      example_store_def first_post_def fresh_session_def)

section \<open>Login and signup\<close>

text \<open>What the \<^verbatim>\<open>try\<close> block of signup answers is never the response to a falsy field.\<close>

lemma SignUp_try_not_required:
  "fst (end_of_request (SignUp_try h sess st name pw)) \<noteq>
     Response (JObj [(''Error'', JStr ''Username and password are required'')]) 400"
  by (auto simp add: SignUp_try_def SignUp_except_def end_of_request_def
      split: sum.splits pyerr.splits list.splits row.splits prod.splits)

text \<open>
  Claim C9. In \<^verbatim>\<open>POST /login\<close> and \<^verbatim>\<open>POST /signup\<close>, a body without the key
  \<^verbatim>\<open>username\<close>, or with it and without the key \<^verbatim>\<open>password\<close>, ends in an uncaught
  \<open>KeyError\<close> for that key, with session and store untouched. The response
  \<^verbatim>\<open>Username and password are required\<close> with 400 is given exactly when both keys are
  present and one of the two values is falsy.
\<close>

theorem C9_missing_keys:
  "(data ''username'' = None \<longrightarrow>
       Login_post h sess st data = (Raised (KeyError ''username''), sess)
     \<and> SignUp_post h sess st data = (Raised (KeyError ''username''), sess, st))
   \<and> (data ''username'' \<noteq> None \<and> data ''password'' = None \<longrightarrow>
       Login_post h sess st data = (Raised (KeyError ''password''), sess)
     \<and> SignUp_post h sess st data = (Raised (KeyError ''password''), sess, st))
   \<and> (fst (Login_post h sess st data) =
         Response (JObj [(''error'', JStr ''Username and password are required'')]) 400
       \<longleftrightarrow> (\<exists>u p. data ''username'' = Some u \<and> data ''password'' = Some p
                   \<and> (\<not> truthy u \<or> \<not> truthy p)))
   \<and> (fst (SignUp_post h sess st data) =
         Response (JObj [(''Error'', JStr ''Username and password are required'')]) 400
       \<longleftrightarrow> (\<exists>u p. data ''username'' = Some u \<and> data ''password'' = Some p
                   \<and> (\<not> truthy u \<or> \<not> truthy p)))"
proof -
  have k1: "data ''username'' = None \<longrightarrow>
       Login_post h sess st data = (Raised (KeyError ''username''), sess)
     \<and> SignUp_post h sess st data = (Raised (KeyError ''username''), sess, st)"
    by (simp add: Login_post_def SignUp_post_def getitem_def)
  have k2: "data ''username'' \<noteq> None \<and> data ''password'' = None \<longrightarrow>
       Login_post h sess st data = (Raised (KeyError ''password''), sess)
     \<and> SignUp_post h sess st data = (Raised (KeyError ''password''), sess, st)"
    by (auto simp add: Login_post_def SignUp_post_def getitem_def)
  have l: "fst (Login_post h sess st data) =
         Response (JObj [(''error'', JStr ''Username and password are required'')]) 400
       \<longleftrightarrow> (\<exists>u p. data ''username'' = Some u \<and> data ''password'' = Some p
                   \<and> (\<not> truthy u \<or> \<not> truthy p))"
    by (auto simp add: Login_post_def getitem_def invalid_credentials_def
        split: option.splits json.splits sum.splits bool.splits)
  have s: "fst (SignUp_post h sess st data) =
         Response (JObj [(''Error'', JStr ''Username and password are required'')]) 400
       \<longleftrightarrow> (\<exists>u p. data ''username'' = Some u \<and> data ''password'' = Some p
                   \<and> (\<not> truthy u \<or> \<not> truthy p))"
    by (auto simp add: SignUp_post_def getitem_def SignUp_try_not_required
        split: option.splits json.splits)
  from k1 k2 l s show ?thesis by blast
qed

theorem C9_missing_keys_witness:
  "Login_post example_hasher fresh_session example_store [''password'' \<mapsto> JStr ''pw'']
     = (Raised (KeyError ''username''), fresh_session)
   \<and> SignUp_post example_hasher fresh_session example_store [''username'' \<mapsto> JStr ''bob'']
     = (Raised (KeyError ''password''), fresh_session, example_store)
   \<and> fst (Login_post example_hasher fresh_session example_store
            [''username'' \<mapsto> JStr [], ''password'' \<mapsto> JStr ''pw''])
     = Response (JObj [(''error'', JStr ''Username and password are required'')]) 400
   \<and> fst (SignUp_post example_hasher fresh_session example_store
            [''username'' \<mapsto> JStr ''bob'', ''password'' \<mapsto> JNull])
     = Response (JObj [(''Error'', JStr ''Username and password are required'')]) 400"
  using C9_missing_keys [of "[''password'' \<mapsto> JStr ''pw'']" example_hasher fresh_session
                            example_store]
        C9_missing_keys [of "[''username'' \<mapsto> JStr ''bob'']" example_hasher fresh_session
                            example_store]
        C9_missing_keys [of "[''username'' \<mapsto> JStr [], ''password'' \<mapsto> JStr ''pw'']"
                            example_hasher fresh_session example_store]
        C9_missing_keys [of "[''username'' \<mapsto> JStr ''bob'', ''password'' \<mapsto> JNull]"
                            example_hasher fresh_session example_store]
  by simp

text \<open>
  Where the two failures of a login do get the same answer: a non-empty username and a
  truthy password, the first request for a username that no user has, the second for the
  username of a user against whose stored hash the verification returns \<^verbatim>\<open>False\<close>.
\<close>

lemma Login_post_generic_failure:
  assumes "data_a ''username'' = Some (JStr name_a)" and "name_a \<noteq> []"
    and "data_a ''password'' = Some pw_a" and "truthy pw_a"
    and "User_query_filter_by_username st name_a = None"
    and "data_b ''username'' = Some (JStr name_b)" and "name_b \<noteq> []"
    and "data_b ''password'' = Some pw_b" and "truthy pw_b"
    and "User_query_filter_by_username st name_b = Some u"
    and "authenticate h u pw_b = Inr False"
  shows "Login_post h sess st data_a =
           (Response (JObj [(''Error'', JStr ''Invalid credentials'')]) 401, sess)
       \<and> Login_post h sess st data_b = Login_post h sess st data_a"
  using assms by (simp add: Login_post_def getitem_def invalid_credentials_def)

text \<open>
  Claim C5. The claim says that, for every non-empty username and password, an unknown
  username and a wrong password get the same 401. \<^verbatim>\<open>Login.post\<close> calls
  \<^verbatim>\<open>user.authenticate(password)\<close> outside any \<^verbatim>\<open>try\<close>, and only when the username is
  that of a user. With the password 5 (truthy, and not a string) the hasher raises: the
  request for the existing user \<^verbatim>\<open>alice\<close> ends in an uncaught \<open>TypeError\<close>, the same
  request for the unknown \<^verbatim>\<open>bob\<close> gets \<^verbatim>\<open>Invalid credentials\<close> with 401. The two
  answers tell whether the username exists.
\<close>

theorem C5_login_distinguishes_known_user:
  "Login_post example_hasher fresh_session example_store
       [''username'' \<mapsto> JStr ''alice'', ''password'' \<mapsto> JInt 5]
     = (Raised (TypeError ''password must be a string''), fresh_session)
   \<and> Login_post example_hasher fresh_session example_store
       [''username'' \<mapsto> JStr ''bob'', ''password'' \<mapsto> JInt 5]
     = (Response (JObj [(''Error'', JStr ''Invalid credentials'')]) 401, fresh_session)"
  by (simp add: Login_post_def getitem_def invalid_credentials_def authenticate_def
      User_query_filter_by_username_def example_store_def alice_def)

theorem C5_login_distinguishes_known_user_witness:
  "fst (Login_post example_hasher fresh_session example_store
          [''username'' \<mapsto> JStr ''alice'', ''password'' \<mapsto> JInt 5])
     \<noteq> fst (Login_post example_hasher fresh_session example_store
              [''username'' \<mapsto> JStr ''bob'', ''password'' \<mapsto> JInt 5])"
  using C5_login_distinguishes_known_user by simp

section \<open>Signing up twice\<close>

lemma list_ex_iff_bex: "list_ex P xs = (\<exists>x\<in>set xs. P x)"
  by (simp add: list_ex_iff)

lemma commit_new_user:
  "db_session_commit st (db_session_add new_unit_of_work (NewUser name h)) =
     (if \<exists>u\<in>set (users st). username u = name
      then (Inl (IntegrityError ''UNIQUE constraint failed: users.username''), st,
            \<lparr>pending = [], inactive = True\<rparr>)
      else (Inr [UserRow (new_user_row st name h)],
            st\<lparr>users := users st @ [new_user_row st name h]\<rparr>,
            \<lparr>pending = [], inactive = False\<rparr>))"
  by (simp add: db_session_commit_def db_session_add_def new_unit_of_work_def flush_user_def
      try_bind_def list_ex_iff Let_def)

lemma User_query_filter_by_username_None:
  "(User_query_filter_by_username st name = None) = (\<forall>u\<in>set (users st). username u \<noteq> name)"
  by (simp add: User_query_filter_by_username_def find_None_ball)

lemma SignUp_try_created:
  assumes "end_of_request (SignUp_try h sess st name pw) = (Response b 201, sess', st')"
  shows "\<exists>hashed. (\<forall>u\<in>set (users st). username u \<noteq> name)
           \<and> st' = st\<lparr>users := users st @ [new_user_row st name hashed]\<rparr>"
proof (cases "password_hash_setter h pw")
  case (Inl e)
  then show ?thesis using assms
    by (simp add: SignUp_try_def SignUp_except_def end_of_request_def split: pyerr.splits)
next
  case (Inr hashed)
  show ?thesis
  proof (cases "\<exists>u\<in>set (users st). username u = name")
    case True
    then show ?thesis using assms Inr
      by (simp add: SignUp_try_def SignUp_except_def end_of_request_def commit_new_user)
  next
    case False
    then show ?thesis using assms Inr
      by (auto simp add: SignUp_try_def end_of_request_def commit_new_user)
  qed
qed

lemma SignUp_post_created:
  assumes "SignUp_post h sess st data = (Response b 201, sess', st')"
    and "data ''username'' = Some (JStr name)"
  shows "\<exists>hashed. (\<forall>u\<in>set (users st). username u \<noteq> name)
           \<and> st' = st\<lparr>users := users st @ [new_user_row st name hashed]\<rparr>"
proof -
  have "end_of_request (SignUp_try h sess st name (dict_get data ''password''))
          = (Response b 201, sess', st')"
    using assms
    by (auto simp add: SignUp_post_def getitem_def dict_get_def
        split: option.splits if_splits)
  then show ?thesis by (rule SignUp_try_created)
qed

text \<open>
  Claim C6. A \<^verbatim>\<open>POST /signup\<close> with a non-empty username that a user already has, and
  a truthy password, answers 409 with \<^verbatim>\<open>Username already exists\<close> and leaves the
  store as it was. So when a first signup has created a user (status 201), a second
  signup with the same username gets 409, the store holds exactly one user with that
  username, and the row of the first signup is still the one it wrote. Whatever the
  password of the body, a signup with the username of an existing user writes nothing
  and does not answer 201.
\<close>

theorem C6_duplicate_signup:
  "(data ''username'' = Some (JStr name) \<and> name \<noteq> [] \<and> data ''password'' = Some pw \<and> truthy pw
      \<and> (\<exists>u\<in>set (users st). username u = name)
    \<longrightarrow> SignUp_post h sess st data =
          (Response (JObj [(''Error'', JStr ''Username already exists'')]) 409, sess, st))
   \<and> (data_first ''username'' = Some (JStr name)
      \<and> SignUp_post h sess_before st_before data_first = (Response b 201, sess, st)
      \<and> data ''username'' = Some (JStr name) \<and> data ''password'' = Some pw \<and> truthy pw
    \<longrightarrow> SignUp_post h sess st data =
          (Response (JObj [(''Error'', JStr ''Username already exists'')]) 409, sess, st)
        \<and> length (filter (\<lambda>u. username u = name) (users st)) = 1
        \<and> (\<exists>u. users st = users st_before @ [u]))
   \<and> (data ''username'' = Some (JStr name) \<and> (\<exists>u\<in>set (users st). username u = name)
    \<longrightarrow> snd (snd (SignUp_post h sess st data)) = st
        \<and> status_of (fst (SignUp_post h sess st data)) \<noteq> Some 201)"
proof -
  have any: "snd (snd (SignUp_post h sess st data)) = st
        \<and> status_of (fst (SignUp_post h sess st data)) \<noteq> Some 201"
    if a1: "data ''username'' = Some (JStr name)"
      and a2: "\<exists>u\<in>set (users st). username u = name"
  proof -
    obtain u where "User_query_filter_by_username st name = Some u"
      using a2 User_query_filter_by_username_None [of st name] by auto
    then show ?thesis using a1
      by (auto simp add: SignUp_post_def getitem_def split: option.splits)
  qed
  have dup: "SignUp_post h' sess' st' data' =
          (Response (JObj [(''Error'', JStr ''Username already exists'')]) 409, sess', st')"
    if t1: "data' ''username'' = Some (JStr name)" and t2: "name \<noteq> []"
      and t3: "data' ''password'' = Some pw'" and t4: "truthy pw'"
      and t5: "\<exists>u\<in>set (users st'). username u = name"
    for h' sess' st' data' pw'
  proof -
    obtain u where "User_query_filter_by_username st' name = Some u"
      using t5 User_query_filter_by_username_None [of st' name] by auto
    then show ?thesis using t1 t2 t3 t4 by (simp add: SignUp_post_def getitem_def)
  qed
  have two: "SignUp_post h sess st data =
          (Response (JObj [(''Error'', JStr ''Username already exists'')]) 409, sess, st)
        \<and> length (filter (\<lambda>u. username u = name) (users st)) = 1
        \<and> (\<exists>u. users st = users st_before @ [u])"
    if df: "data_first ''username'' = Some (JStr name)"
      and r: "SignUp_post h sess_before st_before data_first = (Response b 201, sess, st)"
      and d1: "data ''username'' = Some (JStr name)" and d2: "data ''password'' = Some pw"
      and d3: "truthy pw"
  proof -
    obtain hashed where fresh: "\<forall>u\<in>set (users st_before). username u \<noteq> name"
      and st: "st = st_before\<lparr>users := users st_before @ [new_user_row st_before name hashed]\<rparr>"
      using SignUp_post_created [OF r df] by blast
    have ne: "name \<noteq> []"
      using r df by (auto simp add: SignUp_post_def getitem_def split: option.splits if_splits)
    have ex: "\<exists>u\<in>set (users st). username u = name"
      by (simp add: st new_user_row_def)
    have cnt: "length (filter (\<lambda>u. username u = name) (users st)) = 1"
      using fresh by (simp add: st new_user_row_def filter_empty_conv [THEN iffD2])
    have app: "\<exists>u. users st = users st_before @ [u]" by (simp add: st)
    show ?thesis using dup [OF d1 ne d2 d3 ex] cnt app by blast
  qed
  show ?thesis using dup two any by blast
qed

theorem C6_duplicate_signup_witness:
  "SignUp_post example_hasher (fresh_session\<lparr>user_id := Some 1\<rparr>)
       (empty_store\<lparr>users := [alice]\<rparr>)
       [''username'' \<mapsto> JStr ''alice'', ''password'' \<mapsto> JStr ''other'']
     = (Response (JObj [(''Error'', JStr ''Username already exists'')]) 409,
        fresh_session\<lparr>user_id := Some 1\<rparr>, empty_store\<lparr>users := [alice]\<rparr>)
   \<and> length (filter (\<lambda>u. username u = ''alice'') (users (empty_store\<lparr>users := [alice]\<rparr>))) = 1"
proof -
  have first: "SignUp_post example_hasher fresh_session empty_store
                 [''username'' \<mapsto> JStr ''alice'', ''password'' \<mapsto> JStr ''pw'']
       = (Response (User_to_dict (empty_store\<lparr>users := [alice]\<rparr>) alice) 201,
          fresh_session\<lparr>user_id := Some 1\<rparr>, empty_store\<lparr>users := [alice]\<rparr>)"
    by (simp add: SignUp_post_def getitem_def User_query_filter_by_username_def SignUp_try_def
        end_of_request_def password_hash_setter_def example_hasher_def db_session_add_def
        db_session_commit_def new_unit_of_work_def flush_user_def new_user_row_def Let_def
        try_bind_def next_id_def empty_store_def alice_def fresh_session_def)
  show ?thesis
    using C6_duplicate_signup
            [where data = "[''username'' \<mapsto> JStr ''alice'', ''password'' \<mapsto> JStr ''other'']"
               and name = "''alice''" and pw = "JStr ''other''"
               and st = "empty_store\<lparr>users := [alice]\<rparr>" and h = example_hasher
               and sess = "fresh_session\<lparr>user_id := Some 1\<rparr>" and st_before = empty_store
               and data_first = "[''username'' \<mapsto> JStr ''alice'', ''password'' \<mapsto> JStr ''pw'']"
               and sess_before = fresh_session
               and b = "User_to_dict (empty_store\<lparr>users := [alice]\<rparr>) alice"]
          first
    by (simp add: alice_def)
qed


section \<open>The tag of a new article\<close>

lemma map_of_filter_not_null:
  "distinct (map fst kw) \<Longrightarrow>
   map_of (filter (\<lambda>(k, v). v \<noteq> JNull) kw) k =
     (case map_of kw k of None \<Rightarrow> None | Some v \<Rightarrow> kept v)"
proof (induction kw)
  case Nil
  show ?case by simp
next
  case (Cons p kw)
  obtain k' v' where p: "p = (k', v')" by (cases p)
  have d: "distinct (map fst kw)" and nk: "k' \<notin> fst ` set kw"
    using Cons.prems p by auto
  have none: "map_of kw k' = None"
    using nk by (simp add: map_of_eq_None_iff)
  show ?case
    using Cons.IH [OF d] none by (auto simp: p kept_def)
qed

text \<open>Dropping a null leaves a column with what it would make of the null.\<close>

lemma dropped_null:
  "(case x of None \<Rightarrow> None | Some v \<Rightarrow> kept v) = x
   \<or> (x = Some JNull \<and> (case x of None \<Rightarrow> None | Some v \<Rightarrow> kept v) = None)"
  by (cases x) (auto simp: kept_def)

lemma string_column_after_filter:
  "\<not> isl (string_column st x) \<Longrightarrow>
   \<exists>c. string_column st (case x of None \<Rightarrow> None | Some v \<Rightarrow> kept v) = Inr c"
  using dropped_null [of x]
  by (cases "string_column st x") (auto simp: string_column_def)

lemma integer_column_after_filter:
  "\<not> isl (integer_column st x) \<Longrightarrow>
   \<exists>c. integer_column st (case x of None \<Rightarrow> None | Some v \<Rightarrow> kept v) = Inr c"
  using dropped_null [of x]
  by (cases "integer_column st x") (auto simp: integer_column_def)

lemma preview_image_column_after_filter:
  "\<not> isl (string_column st x) \<Longrightarrow>
   \<exists>c. preview_image_column st (case x of None \<Rightarrow> None | Some v \<Rightarrow> kept v) = Inr c"
  using dropped_null [of x]
  by (cases "string_column st x"; cases x)
     (auto simp: preview_image_column_def)

lemma flush_article_default_tag:
  assumes kw: "distinct (map fst kw)"
    and a: "\<not> isl (string_column st (map_of kw ''author''))"
    and t: "\<not> isl (string_column st (map_of kw ''title''))"
    and c: "\<not> isl (string_column st (map_of kw ''content''))"
    and p: "\<not> isl (string_column st (map_of kw ''preview_text''))"
    and m: "\<not> isl (integer_column st (map_of kw ''minutes_to_read''))"
    and i: "\<not> isl (string_column st (map_of kw ''preview_image''))"
    and g: "map_of kw ''tag'' = None \<or> map_of kw ''tag'' = Some JNull"
    and u: "map_of kw ''user_id'' = Some (JInt uid)"
           "\<not> isl (user_id_column st (Some (JInt uid)))"
  shows "\<exists>row. flush_article st (filter (\<lambda>(k, v). v \<noteq> JNull) kw)
                 = Inr (row, st\<lparr>articles := articles st @ [row]\<rparr>)
               \<and> tag row = ''Engineering''"
proof -
  let ?kw = "filter (\<lambda>(k, v). v \<noteq> JNull) kw"
  note look = map_of_filter_not_null [OF kw]
  obtain ca where ca: "string_column st (map_of ?kw ''author'') = Inr ca"
    using string_column_after_filter [OF a] by (auto simp: look)
  obtain ct where ct: "string_column st (map_of ?kw ''title'') = Inr ct"
    using string_column_after_filter [OF t] by (auto simp: look)
  obtain cc where cc: "string_column st (map_of ?kw ''content'') = Inr cc"
    using string_column_after_filter [OF c] by (auto simp: look)
  obtain cp where cp: "string_column st (map_of ?kw ''preview_text'') = Inr cp"
    using string_column_after_filter [OF p] by (auto simp: look)
  obtain cm where cm: "integer_column st (map_of ?kw ''minutes_to_read'') = Inr cm"
    using integer_column_after_filter [OF m] by (auto simp: look)
  obtain ci where ci: "preview_image_column st (map_of ?kw ''preview_image'') = Inr ci"
    using preview_image_column_after_filter [OF i] by (auto simp: look)
  have cg: "tag_column st (map_of ?kw ''tag'') = Inr ''Engineering''"
    using g by (auto simp: look kept_def tag_column_def)
  obtain cu where cu: "user_id_column st (map_of ?kw ''user_id'') = Inr cu"
    using u by (cases "user_id_column st (Some (JInt uid))") (auto simp: look kept_def)
  show ?thesis
    by (simp add: flush_article_def try_bind_def ca ct cc cp ci cm cg cu Let_def)
qed

text \<open>A row that the flush has written carries the tag that the tag column made.\<close>

lemma flush_article_Inr:
  "flush_article st kw = Inr (row, st') \<Longrightarrow>
   st' = st\<lparr>articles := articles st @ [row]\<rparr>
   \<and> tag_column st (map_of kw ''tag'') = Inr (tag row)"
  by (auto simp: flush_article_def try_bind_def Let_def split: sum.splits)

lemma string_column_dict_get:
  "string_column st (Some (dict_get data k)) = string_column st (data k)"
  by (cases "data k") (simp_all add: dict_get_def string_column_def)

lemma article_data_present:
  assumes "data ''title'' = Some vt" and "data ''content'' = Some vc"
    and "data ''preview_text'' = Some vp" and "data ''minutes_to_read'' = Some vm"
  shows "article_data u uid data =
     Inr [(''author'', JStr (username u)), (''title'', vt), (''content'', vc),
          (''preview_text'', vp), (''minutes_to_read'', vm), (''user_id'', JInt uid),
          (''tag'', dict_get data ''tag''), (''preview_image'', dict_get data ''preview_image'')]"
  using assms by (simp add: article_data_def getitem_def try_bind_def)

lemma article_data_Inr:
  assumes "article_data u uid data = Inr kw"
  shows "distinct (map fst kw) \<and> map_of kw ''tag'' = Some (dict_get data ''tag'')"
proof -
  obtain vt vc vp vm where "data ''title'' = Some vt" "data ''content'' = Some vc"
      "data ''preview_text'' = Some vp" "data ''minutes_to_read'' = Some vm"
    using assms
    by (auto simp: article_data_def getitem_def try_bind_def split: option.splits)
  then show ?thesis using assms by (auto simp: article_data_present)
qed

lemma commit_new_article:
  "db_session_commit st (db_session_add new_unit_of_work (NewArticle kw)) =
     (case flush_article st kw of
        Inl e \<Rightarrow> (Inl e, st, \<lparr>pending = [], inactive = True\<rparr>)
      | Inr (row, st') \<Rightarrow> (Inr [ArticleRow row], st', \<lparr>pending = [], inactive = False\<rparr>))"
  by (simp add: db_session_commit_def db_session_add_def new_unit_of_work_def try_bind_def
      split: sum.splits prod.splits)

lemma CreateArticle_try_default_tag:
  assumes f: "list_all (\<lambda>field. data field \<noteq> None) required_fields"
    and g: "data ''tag'' = None"
    and ok: "store_accepts st usr uid data"
  shows "\<exists>a. end_of_request (CreateArticle_try sess st usr uid data) =
           (Response (Article_to_dict (st\<lparr>articles := articles st @ [a]\<rparr>) a) 201,
            sess, st\<lparr>articles := articles st @ [a]\<rparr>)
         \<and> tag a = ''Engineering''"
proof -
  obtain vt vc vp vm where d: "data ''title'' = Some vt" "data ''content'' = Some vc"
      "data ''preview_text'' = Some vp" "data ''minutes_to_read'' = Some vm"
    using f by (auto simp: required_fields_def)
  let ?kw = "[(''author'', JStr (username usr)), (''title'', vt), (''content'', vc),
          (''preview_text'', vp), (''minutes_to_read'', vm), (''user_id'', JInt uid),
          (''tag'', dict_get data ''tag''), (''preview_image'', dict_get data ''preview_image'')]"
  have kw: "article_data usr uid data = Inr ?kw"
    using d by (rule article_data_present)
  have img: "\<not> isl (string_column st (map_of ?kw ''preview_image''))"
    using ok by (simp add: store_accepts_def string_column_dict_get)
  obtain row where
    fl: "flush_article st (filter (\<lambda>(k, v). v \<noteq> JNull) ?kw)
           = Inr (row, st\<lparr>articles := articles st @ [row]\<rparr>)"
    and tg: "tag row = ''Engineering''"
    using flush_article_default_tag [of ?kw st uid] ok d g img
    by (auto simp: store_accepts_def dict_get_def)
  have "end_of_request (CreateArticle_try sess st usr uid data) =
           (Response (Article_to_dict (st\<lparr>articles := articles st @ [row]\<rparr>) row) 201,
            sess, st\<lparr>articles := articles st @ [row]\<rparr>)"
    unfolding CreateArticle_try_def kw
    by (simp add: commit_new_article fl end_of_request_def del: filter.simps)
  then show ?thesis using tg by blast
qed

lemma CreateArticle_try_created:
  assumes g: "data ''tag'' = None"
    and r: "end_of_request (CreateArticle_try sess st usr uid data) = (Response b 201, sess', st')"
  shows "\<exists>a. st' = st\<lparr>articles := articles st @ [a]\<rparr> \<and> tag a = ''Engineering''
             \<and> b = Article_to_dict st' a"
proof (cases "article_data usr uid data")
  case (Inl e)
  then show ?thesis using r
    by (simp add: CreateArticle_try_def CreateArticle_except_def end_of_request_def
        split: pyerr.splits)
next
  case (Inr kw)
  let ?kw = "filter (\<lambda>(k, v). v \<noteq> JNull) kw"
  have dk: "distinct (map fst kw)" and tk: "map_of kw ''tag'' = Some (dict_get data ''tag'')"
    using article_data_Inr [OF Inr] by simp_all
  have none: "map_of ?kw ''tag'' = None"
    using g by (simp add: map_of_filter_not_null [OF dk] tk dict_get_def kept_def)
  show ?thesis
  proof (cases "flush_article st ?kw")
    case (Inl e)
    then show ?thesis using r Inr
      by (simp add: CreateArticle_try_def CreateArticle_except_def end_of_request_def
          commit_new_article split: pyerr.splits)
  next
    case (Inr p)
    obtain row st2 where p: "p = (row, st2)" by (cases p)
    have fl: "flush_article st ?kw = Inr (row, st2)" using Inr p by simp
    have st2: "st2 = st\<lparr>articles := articles st @ [row]\<rparr>"
      and tg: "tag_column st (map_of ?kw ''tag'') = Inr (tag row)"
      using flush_article_Inr [OF fl] by simp_all
    have eng: "tag row = ''Engineering''"
      using tg none by (simp add: tag_column_def)
    have "end_of_request (CreateArticle_try sess st usr uid data)
            = (Response (Article_to_dict st2 row) 201, sess, st2)"
      using \<open>article_data usr uid data = Inr kw\<close>
      by (simp add: CreateArticle_try_def commit_new_article fl end_of_request_def)
    then show ?thesis using r st2 eng by auto
  qed
qed

text \<open>
  Claim C7, amended. For a \<^verbatim>\<open>POST /articles/create\<close> in the session of an existing
  user: when the body has a \<^verbatim>\<open>tag\<close> that is not one of \<^verbatim>\<open>Product\<close>,
  \<^verbatim>\<open>Engineering\<close>, \<^verbatim>\<open>Design\<close> (null included), the answer has status 400 and the
  store is as it was. When the body has no \<^verbatim>\<open>tag\<close>, has the four required fields and
  the store takes its values, the answer has status 201 and the store has one more
  article, whose tag is \<^verbatim>\<open>Engineering\<close>. And whenever a body with no \<^verbatim>\<open>tag\<close> is
  answered with 201, the store has one more article, whose tag is \<^verbatim>\<open>Engineering\<close>.
\<close>

theorem C7_tag_validation:
  assumes "user_id sess = Some uid" and "uid \<noteq> 0" and "User_query_get st uid = Some u"
  shows "(\<forall>t. data ''tag'' = Some t \<and> t \<notin> JStr ` set allowed_tags \<longrightarrow>
            (\<exists>b. CreateArticle_post sess st data = (Response b 400, sess, st)))
       \<and> (data ''tag'' = None \<and> list_all (\<lambda>field. data field \<noteq> None) required_fields
            \<and> store_accepts st u uid data \<longrightarrow>
            (\<exists>a st'. CreateArticle_post sess st data
                        = (Response (Article_to_dict st' a) 201, sess, st')
                    \<and> st' = st\<lparr>articles := articles st @ [a]\<rparr>
                    \<and> tag a = ''Engineering''))
       \<and> (data ''tag'' = None \<longrightarrow>
            (\<forall>b sess' st'. CreateArticle_post sess st data = (Response b 201, sess', st') \<longrightarrow>
               (\<exists>a. st' = st\<lparr>articles := articles st @ [a]\<rparr> \<and> tag a = ''Engineering''
                    \<and> b = Article_to_dict st' a)))"
proof (intro conjI allI impI)
  fix t
  assume "data ''tag'' = Some t \<and> t \<notin> JStr ` set allowed_tags"
  then show "\<exists>b. CreateArticle_post sess st data = (Response b 400, sess, st)"
    using assms by (simp add: CreateArticle_post_def dict_get_def)
next
  assume h: "data ''tag'' = None \<and> list_all (\<lambda>field. data field \<noteq> None) required_fields
            \<and> store_accepts st u uid data"
  then have h1: "list_all (\<lambda>field. data field \<noteq> None) required_fields"
    and h2: "data ''tag'' = None" and h3: "store_accepts st u uid data"
    by simp_all
  obtain a where r: "end_of_request (CreateArticle_try sess st u uid data) =
           (Response (Article_to_dict (st\<lparr>articles := articles st @ [a]\<rparr>) a) 201,
            sess, st\<lparr>articles := articles st @ [a]\<rparr>)"
    and tg: "tag a = ''Engineering''"
    using CreateArticle_try_default_tag [OF h1 h2 h3, of sess] by auto
  have "CreateArticle_post sess st data = end_of_request (CreateArticle_try sess st u uid data)"
    using assms h1 h2 by (simp add: CreateArticle_post_def)
  then show "\<exists>a st'. CreateArticle_post sess st data
                        = (Response (Article_to_dict st' a) 201, sess, st')
                    \<and> st' = st\<lparr>articles := articles st @ [a]\<rparr>
                    \<and> tag a = ''Engineering''"
    using r tg by auto
next
  fix b sess' st'
  assume g: "data ''tag'' = None"
    and r: "CreateArticle_post sess st data = (Response b 201, sess', st')"
  have "end_of_request (CreateArticle_try sess st u uid data) = (Response b 201, sess', st')"
    using assms g r by (auto simp add: CreateArticle_post_def split: if_splits)
  then show "\<exists>a. st' = st\<lparr>articles := articles st @ [a]\<rparr> \<and> tag a = ''Engineering''
                    \<and> b = Article_to_dict st' a"
    using CreateArticle_try_created [of data sess st u uid b sess' st'] g by blast
qed

theorem C7_tag_validation_witness:
  "(\<exists>b. CreateArticle_post logged_in example_store
            (example_article_body(''tag'' \<mapsto> JStr ''Invalid''))
          = (Response b 400, logged_in, example_store))
   \<and> (\<exists>a st'. CreateArticle_post logged_in example_store example_article_body
                 = (Response (Article_to_dict st' a) 201, logged_in, st')
               \<and> st' = example_store\<lparr>articles := articles example_store @ [a]\<rparr>
               \<and> tag a = ''Engineering'')"
proof -
  have s: "user_id logged_in = Some 1" by (simp add: logged_in_def)
  have u: "User_query_get example_store 1 = Some alice"
    by (simp add: User_query_get_def example_store_def alice_def)
  have t: "(example_article_body(''tag'' \<mapsto> JStr ''Invalid'')) ''tag'' = Some (JStr ''Invalid'')
           \<and> JStr ''Invalid'' \<notin> JStr ` set allowed_tags"
    by (simp add: allowed_tags_def image_iff)
  have ok: "example_article_body ''tag'' = None
            \<and> list_all (\<lambda>field. example_article_body field \<noteq> None) required_fields
            \<and> store_accepts example_store alice 1 example_article_body"
    by (simp add: example_article_body_def required_fields_def store_accepts_def
        string_column_def integer_column_def user_id_column_def example_store_def
        strings_only_def small_integers_only_def)
  have one: "(1::int) \<noteq> 0" by simp
  note refused =
    C7_tag_validation [OF s one u, of "example_article_body(''tag'' \<mapsto> JStr ''Invalid'')"]
  note stored = C7_tag_validation [OF s one u, of example_article_body]
  have w1: "\<exists>b. CreateArticle_post logged_in example_store
                  (example_article_body(''tag'' \<mapsto> JStr ''Invalid''))
                = (Response b 400, logged_in, example_store)"
    by (rule conjunct1 [OF refused, rule_format, OF t])
  have w2: "\<exists>a st'. CreateArticle_post logged_in example_store example_article_body
                 = (Response (Article_to_dict st' a) 201, logged_in, st')
               \<and> st' = example_store\<lparr>articles := articles example_store @ [a]\<rparr>
               \<and> tag a = ''Engineering''"
    by (rule conjunct1 [OF conjunct2 [OF stored], rule_format, OF ok])
  from w1 w2 show ?thesis by (rule conjI)
qed

text \<open>
  Claim C7, as stated, fails for a null tag: the key is in the body and \<^verbatim>\<open>None\<close> is
  not an allowed value, so the request is refused and nothing is stored.
\<close>

theorem C7_null_tag_counterexample:
  "(example_article_body(''tag'' \<mapsto> JNull)) ''tag'' = Some JNull
   \<and> CreateArticle_post logged_in example_store (example_article_body(''tag'' \<mapsto> JNull))
     = (Response (JObj [(''error'',
          JStr ''Invalid tag. Allowed values: ['Product', 'Engineering', 'Design']'')]) 400,
        logged_in, example_store)"
  by (simp add: CreateArticle_post_def logged_in_def User_query_get_def example_store_def
      alice_def example_article_body_def required_fields_def allowed_tags_def dict_get_def)

section \<open>The password hash in responses\<close>

text \<open>
  Claim C2. Reading \<^verbatim>\<open>password_hash\<close> raises, as the claim says. The serialized user
  does hold the hash: \<^verbatim>\<open>to_dict\<close> takes every column and \<^verbatim>\<open>serialize_rules\<close> does not
  exclude \<^verbatim>\<open>_password_hash\<close>. The responses of signup, login and check_session carry
  the stored hash under that key.
\<close>

theorem C2_hash_in_serialized_user:
  "fst (SignUp_post example_hasher fresh_session empty_store
          [''username'' \<mapsto> JStr ''alice'', ''password'' \<mapsto> JStr ''pw''])
     = Response (JObj [(''_password_hash'', JStr ''$2b$12$wp''),
                       (''avatar'', JStr DEFAULT_AVATAR),
                       (''id'', JInt 1),
                       (''username'', JStr ''alice''),
                       (''articles'', JArr [])]) 201
   \<and> (\<exists>kvs. fst (Login_post example_hasher fresh_session example_store
                    [''username'' \<mapsto> JStr ''alice'', ''password'' \<mapsto> JStr ''pw''])
               = Response (JObj kvs) 200
             \<and> map_of kvs ''_password_hash'' = Some (JStr (password_hash_col alice)))
   \<and> (\<exists>kvs. CheckSession_get logged_in example_store = Response (JObj kvs) 200
             \<and> map_of kvs ''_password_hash'' = Some (JStr (password_hash_col alice)))
   \<and> password_hash alice = Inl (AttributeError ''Password hash cannot be viewed'')"
proof -
  have a: "fst (SignUp_post example_hasher fresh_session empty_store
          [''username'' \<mapsto> JStr ''alice'', ''password'' \<mapsto> JStr ''pw''])
     = Response (JObj [(''_password_hash'', JStr ''$2b$12$wp''),
                       (''avatar'', JStr DEFAULT_AVATAR),
                       (''id'', JInt 1),
                       (''username'', JStr ''alice''),
                       (''articles'', JArr [])]) 201"
    by (simp add: SignUp_post_def getitem_def User_query_filter_by_username_def SignUp_try_def
        end_of_request_def password_hash_setter_def example_hasher_def db_session_add_def
        db_session_commit_def new_unit_of_work_def flush_user_def new_user_row_def Let_def
        try_bind_def next_id_def empty_store_def fresh_session_def User_to_dict_def
        user_columns_def Article_query_filter_by_user_id_def)
  have b: "fst (Login_post example_hasher fresh_session example_store
                    [''username'' \<mapsto> JStr ''alice'', ''password'' \<mapsto> JStr ''pw''])
             = Response (User_to_dict example_store alice) 200"
    by (simp add: Login_post_def getitem_def User_query_filter_by_username_def
        authenticate_def example_hasher_def example_store_def alice_def)
  have c: "CheckSession_get logged_in example_store
             = Response (User_to_dict example_store alice) 200"
    by (simp add: CheckSession_get_def logged_in_def User_query_filter_id_def
        example_store_def alice_def)
  have d: "\<exists>kvs. User_to_dict example_store alice = JObj kvs
             \<and> map_of kvs ''_password_hash'' = Some (JStr (password_hash_col alice))"
    by (simp add: User_to_dict_def user_columns_def)
  have e: "password_hash alice = Inl (AttributeError ''Password hash cannot be viewed'')"
    by (simp add: password_hash_def)
  from a b c d e show ?thesis by simp
qed

theorem C2_hash_in_serialized_user_witness:
  "\<exists>kvs. fst (SignUp_post example_hasher fresh_session empty_store
                 [''username'' \<mapsto> JStr ''alice'', ''password'' \<mapsto> JStr ''pw''])
            = Response (JObj kvs) 201
          \<and> generate_password_hash example_hasher ''pw'' = Inr ''$2b$12$wp''
          \<and> map_of kvs ''_password_hash'' = Some (JStr ''$2b$12$wp'')"
  using C2_hash_in_serialized_user by (simp add: example_hasher_def)

section \<open>Rollback on the write paths\<close>

text \<open>
  Claim C4. The claim says that both write paths catch a constraint violation or a value
  error, roll back and then answer. \<^verbatim>\<open>CreateArticle.post\<close> does: its
  \<^verbatim>\<open>except (IntegrityError, ValueError)\<close> calls \<^verbatim>\<open>rollback\<close>, which leaves the session
  active, and answers 400. \<^verbatim>\<open>SignUp.post\<close> has only \<^verbatim>\<open>except ValueError\<close> and no
  \<^verbatim>\<open>rollback\<close>. When its commit meets a username that is already in the store (a signup
  that another request completed after this one's own check), the \<open>IntegrityError\<close>
  leaves the handler uncaught: no error response is returned and the session is left
  inactive, with no rollback. The store itself is as before, in both handlers.
\<close>

theorem C4_signup_no_rollback:
  "SignUp_try example_hasher fresh_session example_store ''alice'' (JStr ''pw'')
     = (Raised (IntegrityError ''UNIQUE constraint failed: users.username''), fresh_session,
        example_store, \<lparr>pending = [], inactive = True\<rparr>)
   \<and> SignUp_except (IntegrityError m) sess st uow = (Raised (IntegrityError m), sess, st, uow)
   \<and> SignUp_except (ValueError m) sess st uow
     = (Response (JObj [(''error'', JStr m)]) 400, sess, st, uow)
   \<and> CreateArticle_except (IntegrityError m) sess st uow
     = (Response (JObj [(''Error'', JStr m)]) 400, sess, st, uow\<lparr>pending := [], inactive := False\<rparr>)
   \<and> CreateArticle_except (ValueError m) sess st uow
     = (Response (JObj [(''Error'', JStr m)]) 400, sess, st, uow\<lparr>pending := [], inactive := False\<rparr>)"
proof -
  have a: "SignUp_try example_hasher fresh_session example_store ''alice'' (JStr ''pw'')
     = (Raised (IntegrityError ''UNIQUE constraint failed: users.username''), fresh_session,
        example_store, \<lparr>pending = [], inactive = True\<rparr>)"
    by (simp add: SignUp_try_def SignUp_except_def password_hash_setter_def example_hasher_def
        commit_new_user example_store_def alice_def)
  show ?thesis
    using a by (simp add: SignUp_except_def CreateArticle_except_def db_session_rollback_def)
qed

end
